theory Spec2Isabelle
  imports Complex_Main "HOL-Library.Word"
begin

section \<open>Maternal health tracking system: model of \<open>src/index.ts\<close>\<close>

text \<open>
  The program is a single TypeScript module: five key-value stores, two validators, a
  risk classifier, an alert constructor, four serializers and three HTTP handlers.
  The model follows the module top to bottom.

  Conventions of the embedding.
  \<^item> A JavaScript string is its sequence of UTF-16 code units (\<open>.length\<close> counts them,
    the regular expression and \<open>trim\<close> work on them).
  \<^item> A JavaScript \<open>number\<close> is read as a real: the program only compares numbers with
    integer constants, which is exact on doubles, and JSON carries no \<open>NaN\<close>. A
    property that is \<open>undefined\<close> on the run-time object is \<open>None\<close>; every comparison
    with \<open>undefined\<close> is false.
  \<^item> A \<open>bigint\<close> is an \<open>int\<close>.
  \<^item> A property that is present in a request body carries a value of the type its
    interface declares. JSON has no \<open>bigint\<close>, so a body has no well-typed
    \<open>recordedAt\<close>, \<open>createdAt\<close> or \<open>lastUpdated\<close>.
  \<^item> \<open>uuidv4()\<close> and \<open>ic.time()\<close> are inputs of each handler (record \<open>env\<close>).
  \<^item> A thrown exception is the \<open>Inl\<close> of a sum; a handler's \<open>catch\<close> turns it into
    the 500 response.
\<close>

subsection \<open>Strings\<close>

type_synonym js_string = "16 word list"

definition utf16 :: "string \<Rightarrow> js_string" where
  "utf16 s = map (\<lambda>c. of_nat (of_char c)) s"

text \<open>\<open>WhiteSpace\<close> and \<open>LineTerminator\<close> of ECMAScript, the code units \<open>trim\<close> strips.\<close>

definition js_whitespace :: "16 word \<Rightarrow> bool" where
  "js_whitespace c \<longleftrightarrow>
     c \<in> {0x09, 0x0A, 0x0B, 0x0C, 0x0D, 0x20, 0xA0, 0x1680, 0x2028, 0x2029,
          0x202F, 0x205F, 0x3000, 0xFEFF}
     \<or> (0x2000 \<le> c \<and> c \<le> 0x200A)"

definition js_trim :: "js_string \<Rightarrow> js_string" where
  "js_trim s = rev (dropWhile js_whitespace (rev (dropWhile js_whitespace s)))"

text \<open>\<open>input.replace(/[<>]/g, '')\<close>: every \<open><\<close> (0x3C) and \<open>>\<close> (0x3E) is deleted.\<close>

definition sanitizeString :: "js_string \<Rightarrow> js_string" where
  "sanitizeString input = filter (\<lambda>c. c \<noteq> 0x3C \<and> c \<noteq> 0x3E) input"

subsection \<open>Enums and interfaces\<close>

datatype RiskLevel = LOW | MEDIUM | HIGH

datatype Trimester = FIRST | SECOND | THIRD

record HealthcareProvider =
  provider_id :: js_string
  provider_name :: js_string
  specialization :: js_string
  licenseNumber :: js_string
  contactInfo :: js_string
  facilityId :: js_string
  isActive :: bool
  provider_lastUpdated :: int

text \<open>
  The stored profile is the object the handler builds by spreading the request body over
  its defaults: the properties without a default are there only if the body has them.
\<close>

record MaternalProfile =
  profile_id :: js_string
  profile_name :: "js_string option"
  age :: "real option"
  bloodType :: "js_string option"
  emergencyContact :: "js_string option"
  dueDate :: int
  currentTrimester :: Trimester
  riskLevel :: RiskLevel
  primaryCareProviderId :: "js_string option"
  profile_createdAt :: int
  profile_lastUpdated :: int
  medicalHistory :: "js_string list"
  allergies :: "js_string list"
  isHighRiskPregnancy :: bool

record HealthMetrics =
  metrics_id :: js_string
  metrics_maternalProfileId :: "js_string option"
  recordedAt :: int
  weight :: "real option"
  bloodPressureSystolic :: "real option"
  bloodPressureDiastolic :: "real option"
  bloodSugar :: "real option"
  hemoglobinLevels :: "real option"
  fetalHeartRate :: "real option"
  metrics_notes :: "js_string option"
  recordedById :: "js_string option"
  isFlaggedForReview :: bool

record PrenatalVisit =
  visit_id :: js_string
  visit_maternalProfileId :: js_string
  visit_providerId :: js_string
  scheduledDate :: int
  completed :: bool
  visitType :: js_string
  findings :: js_string
  recommendations :: js_string
  nextVisitDate :: "int option"
  prescriptions :: "js_string list"
  followUpRequired :: bool
  cancellationReason :: "js_string option"

record HealthAlert =
  alert_id :: js_string
  alert_maternalProfileId :: "js_string option"
  alert_createdAt :: int
  severity :: RiskLevel
  description :: string
  recommendedAction :: string
  resolved :: bool
  resolvedAt :: "int option"
  alert_providerId :: "js_string option"
  resolutionNotes :: "js_string option"
  escalationLevel :: int

subsection \<open>Request bodies\<close>

text \<open>
  \<open>req.body\<close> of \<open>POST /maternal-profiles\<close>. \<open>req_dueDate_getTime\<close> is the value of
  \<open>new Date(req.body.dueDate).getTime()\<close>, \<open>None\<close> when that is \<open>NaN\<close> (an absent or
  unparsable date).
\<close>

record ProfileBody =
  req_profile_id :: "js_string option"
  req_name :: "js_string option"
  req_age :: "real option"
  req_bloodType :: "js_string option"
  req_emergencyContact :: "js_string option"
  req_dueDate_getTime :: "int option"
  req_currentTrimester :: "Trimester option"
  req_riskLevel :: "RiskLevel option"
  req_primaryCareProviderId :: "js_string option"
  req_medicalHistory :: "js_string list option"
  req_allergies :: "js_string list option"
  req_isHighRiskPregnancy :: "bool option"

text \<open>\<open>req.body\<close> of \<open>POST /health-metrics\<close>.\<close>

record MetricsBody =
  req_metrics_id :: "js_string option"
  req_maternalProfileId :: "js_string option"
  req_weight :: "real option"
  req_bloodPressureSystolic :: "real option"
  req_bloodPressureDiastolic :: "real option"
  req_bloodSugar :: "real option"
  req_hemoglobinLevels :: "real option"
  req_fetalHeartRate :: "real option"
  req_notes :: "js_string option"
  req_recordedById :: "js_string option"
  req_isFlaggedForReview :: "bool option"

subsection \<open>Input validation\<close>

definition name_error :: string where
  "name_error = ''Name must be between 2 and 100 characters''"

definition history_error :: string where
  "history_error = ''Medical history entries cannot exceed 1000 characters''"

definition age_error :: string where
  "age_error = ''Age must be between 16 and 60''"

definition bloodType_error :: string where
  "bloodType_error = ''Invalid blood type''"

definition bloodTypes :: "js_string list" where
  "bloodTypes = map utf16 [''A+'', ''A-'', ''B+'', ''B-'', ''AB+'', ''AB-'', ''O+'', ''O-'']"

text \<open>\<open>!profile.name || profile.name.trim().length < 2 || profile.name.length > 100\<close>\<close>

definition name_invalid :: "js_string option \<Rightarrow> bool" where
  "name_invalid n =
     (case n of
        None \<Rightarrow> True
      | Some s \<Rightarrow> s = [] \<or> length (js_trim s) < 2 \<or> length s > 100)"

text \<open>\<open>profile.medicalHistory?.some(history => history.length > 1000)\<close>\<close>

definition history_invalid :: "js_string list option \<Rightarrow> bool" where
  "history_invalid h =
     (case h of
        None \<Rightarrow> False
      | Some hs \<Rightarrow> list_ex (\<lambda>history. length history > 1000) hs)"

text \<open>\<open>!profile.age || profile.age < 16 || profile.age > 60\<close>\<close>

definition age_invalid :: "real option \<Rightarrow> bool" where
  "age_invalid a =
     (case a of
        None \<Rightarrow> True
      | Some x \<Rightarrow> x = 0 \<or> x < 16 \<or> x > 60)"

text \<open>\<open>!profile.bloodType || ![...].includes(profile.bloodType)\<close>\<close>

definition bloodType_invalid :: "js_string option \<Rightarrow> bool" where
  "bloodType_invalid t =
     (case t of
        None \<Rightarrow> True
      | Some s \<Rightarrow> s = [] \<or> s \<notin> set bloodTypes)"

definition validateProfile :: "ProfileBody \<Rightarrow> string option" where
  "validateProfile profile =
     (if name_invalid (req_name profile) then Some name_error
      else if history_invalid (req_medicalHistory profile) then Some history_error
      else if age_invalid (req_age profile) then Some age_error
      else if bloodType_invalid (req_bloodType profile) then Some bloodType_error
      else None)"

text \<open>
  \<open>metrics.x && (metrics.x < lo || metrics.x > hi)\<close>: an absent reading and the
  reading 0 are falsy and skip the range check.
\<close>

definition out_of_range :: "real option \<Rightarrow> real \<Rightarrow> real \<Rightarrow> bool" where
  "out_of_range v lo hi =
     (case v of
        None \<Rightarrow> False
      | Some x \<Rightarrow> x \<noteq> 0 \<and> (x < lo \<or> x > hi))"

definition systolic_error :: string where
  "systolic_error = ''Invalid systolic blood pressure range''"

definition diastolic_error :: string where
  "diastolic_error = ''Invalid diastolic blood pressure range''"

definition bloodSugar_error :: string where
  "bloodSugar_error = ''Invalid blood sugar range''"

definition validateHealthMetrics :: "MetricsBody \<Rightarrow> string option" where
  "validateHealthMetrics metrics =
     (if out_of_range (req_bloodPressureSystolic metrics) 70 190 then Some systolic_error
      else if out_of_range (req_bloodPressureDiastolic metrics) 40 120 then Some diastolic_error
      else if out_of_range (req_bloodSugar metrics) 30 500 then Some bloodSugar_error
      else None)"

subsection \<open>Storage, environment, responses\<close>

text \<open>
  The five \<open>StableBTreeMap\<close>s. \<open>get\<close> is the lookup, \<open>insert\<close> the update (an
  existing key is overwritten).
\<close>

record system =
  maternalProfileStorage :: "js_string \<rightharpoonup> MaternalProfile"
  providerStorage :: "js_string \<rightharpoonup> HealthcareProvider"
  metricsStorage :: "js_string \<rightharpoonup> HealthMetrics"
  visitStorage :: "js_string \<rightharpoonup> PrenatalVisit"
  alertStorage :: "js_string \<rightharpoonup> HealthAlert"

text \<open>
  What one request draws from outside: the results of its first and second call of
  \<open>uuidv4()\<close> and of \<open>ic.time()\<close>.
\<close>

record env =
  uuid1 :: js_string
  uuid2 :: js_string
  time1 :: int
  time2 :: int

datatype js_error = RangeError | Error string

text \<open>\<open>res.json(x)\<close> is \<open>Json x\<close>; \<open>res.status(c).json({ error: msg })\<close> is \<open>Failure c msg\<close>.\<close>

datatype 'a response = Json 'a | Failure nat string

subsection \<open>Serialization\<close>

text \<open>
  \<open>ISO ms\<close> stands for the ISO-8601 string of the time value \<open>ms\<close>, \<open>Invalid_Date\<close> for
  the literal \<open>"Invalid Date"\<close>.
\<close>

datatype date_string = ISO int | Invalid_Date

definition NANOS_PER_MILLISECOND :: int where
  "NANOS_PER_MILLISECOND = 1000000"

text \<open>Division of \<open>bigint\<close>s truncates towards zero.\<close>

definition bigint_div :: "int \<Rightarrow> int \<Rightarrow> int" where
  "bigint_div a b = sgn a * sgn b * (\<bar>a\<bar> div \<bar>b\<bar>)"

text \<open>
  \<open>new Date(Number(ms)).toISOString()\<close>: a time value beyond 8.64e15 milliseconds is
  clipped to \<open>NaN\<close>, and \<open>toISOString\<close> of an invalid date throws a \<open>RangeError\<close>. The
  bound is below \<open>2^53\<close>, so the rounding of \<open>Number\<close> does not move a value across it.
\<close>

definition date_toISOString :: "int \<Rightarrow> js_error + date_string" where
  "date_toISOString ms =
     (if \<bar>ms\<bar> \<le> 8640000000000000 then Inr (ISO ms) else Inl RangeError)"

definition instant_toISOString :: "int \<Rightarrow> js_error + date_string" where
  "instant_toISOString t = date_toISOString (bigint_div t NANOS_PER_MILLISECOND)"

text \<open>
  A serialized entity is the entity (the spread \<open>...profile\<close>) with its instants
  replaced by strings.
\<close>

record SerializedProfile =
  sp_profile :: MaternalProfile
  sp_dueDate :: date_string
  sp_createdAt :: date_string
  sp_lastUpdated :: date_string

record SerializedMetrics =
  sm_metrics :: HealthMetrics
  sm_recordedAt :: date_string

record SerializedVisit =
  sv_visit :: PrenatalVisit
  sv_scheduledDate :: date_string
  sv_nextVisitDate :: "date_string option"

record SerializedAlert =
  sa_alert :: HealthAlert
  sa_createdAt :: date_string
  sa_resolvedAt :: "date_string option"

definition serializeProfile :: "MaternalProfile \<Rightarrow> SerializedProfile" where
  "serializeProfile profile =
     (case instant_toISOString (dueDate profile) of
        Inr d \<Rightarrow>
          (case instant_toISOString (profile_createdAt profile) of
             Inr c \<Rightarrow>
               (case instant_toISOString (profile_lastUpdated profile) of
                  Inr u \<Rightarrow>
                    \<lparr>sp_profile = profile, sp_dueDate = d, sp_createdAt = c, sp_lastUpdated = u\<rparr>
                | Inl e \<Rightarrow>
                    \<lparr>sp_profile = profile, sp_dueDate = Invalid_Date,
                     sp_createdAt = Invalid_Date, sp_lastUpdated = Invalid_Date\<rparr>)
           | Inl e \<Rightarrow>
               \<lparr>sp_profile = profile, sp_dueDate = Invalid_Date,
                sp_createdAt = Invalid_Date, sp_lastUpdated = Invalid_Date\<rparr>)
      | Inl e \<Rightarrow>
          \<lparr>sp_profile = profile, sp_dueDate = Invalid_Date,
           sp_createdAt = Invalid_Date, sp_lastUpdated = Invalid_Date\<rparr>)"

definition serializeMetrics :: "HealthMetrics \<Rightarrow> js_error + SerializedMetrics" where
  "serializeMetrics metrics =
     (case instant_toISOString (recordedAt metrics) of
        Inr r \<Rightarrow> Inr \<lparr>sm_metrics = metrics, sm_recordedAt = r\<rparr>
      | Inl e \<Rightarrow> Inl (Error ''Failed to serialize metrics data''))"

text \<open>\<open>visit.nextVisitDate ? ... : null\<close>: \<open>null\<close> and \<open>0n\<close> are falsy.\<close>

definition serializeVisit :: "PrenatalVisit \<Rightarrow> js_error + SerializedVisit" where
  "serializeVisit visit =
     (case instant_toISOString (scheduledDate visit) of
        Inl e \<Rightarrow> Inl (Error ''Failed to serialize visit data'')
      | Inr d \<Rightarrow>
          (case nextVisitDate visit of
             None \<Rightarrow> Inr \<lparr>sv_visit = visit, sv_scheduledDate = d, sv_nextVisitDate = None\<rparr>
           | Some n \<Rightarrow>
               if n = 0
               then Inr \<lparr>sv_visit = visit, sv_scheduledDate = d, sv_nextVisitDate = None\<rparr>
               else
                 (case instant_toISOString n of
                    Inl e \<Rightarrow> Inl (Error ''Failed to serialize visit data'')
                  | Inr x \<Rightarrow>
                      Inr \<lparr>sv_visit = visit, sv_scheduledDate = d, sv_nextVisitDate = Some x\<rparr>)))"

definition serializeAlert :: "HealthAlert \<Rightarrow> js_error + SerializedAlert" where
  "serializeAlert alert =
     (case instant_toISOString (alert_createdAt alert) of
        Inl e \<Rightarrow> Inl (Error ''Failed to serialize alert data'')
      | Inr c \<Rightarrow>
          (case resolvedAt alert of
             None \<Rightarrow> Inr \<lparr>sa_alert = alert, sa_createdAt = c, sa_resolvedAt = None\<rparr>
           | Some r \<Rightarrow>
               if r = 0
               then Inr \<lparr>sa_alert = alert, sa_createdAt = c, sa_resolvedAt = None\<rparr>
               else
                 (case instant_toISOString r of
                    Inl e \<Rightarrow> Inl (Error ''Failed to serialize alert data'')
                  | Inr x \<Rightarrow>
                      Inr \<lparr>sa_alert = alert, sa_createdAt = c, sa_resolvedAt = Some x\<rparr>)))"

subsection \<open>Risk assessment and alerts\<close>

text \<open>Comparisons of a possibly absent number with a constant.\<close>

definition js_ge :: "real option \<Rightarrow> real \<Rightarrow> bool" where
  "js_ge v c = (case v of None \<Rightarrow> False | Some x \<Rightarrow> x \<ge> c)"

definition js_gt :: "real option \<Rightarrow> real \<Rightarrow> bool" where
  "js_gt v c = (case v of None \<Rightarrow> False | Some x \<Rightarrow> x > c)"

definition js_lt :: "real option \<Rightarrow> real \<Rightarrow> bool" where
  "js_lt v c = (case v of None \<Rightarrow> False | Some x \<Rightarrow> x < c)"

text \<open>\<open>assessRisk\<close> returns a boolean; \<open>True\<close> is the verdict HIGH, \<open>False\<close> the verdict LOW.\<close>

definition assessRisk :: "HealthMetrics \<Rightarrow> bool" where
  "assessRisk metrics =
     (js_ge (bloodPressureSystolic metrics) 140 \<or>
      js_ge (bloodPressureDiastolic metrics) 90 \<or>
      js_gt (bloodSugar metrics) 140 \<or>
      js_lt (hemoglobinLevels metrics) 9)"

text \<open>
  \<open>createHighRiskAlert\<close>, with the results of its calls of \<open>uuidv4()\<close> and \<open>ic.time()\<close>
  as arguments. The literal has no \<open>resolutionNotes\<close>.
\<close>

definition createHighRiskAlert :: "js_string \<Rightarrow> int \<Rightarrow> HealthMetrics \<Rightarrow> system \<Rightarrow> system" where
  "createHighRiskAlert uuid time metrics s =
     (let alert =
        \<lparr>alert_id = uuid,
         alert_maternalProfileId = metrics_maternalProfileId metrics,
         alert_createdAt = time,
         severity = HIGH,
         description = ''Abnormal health metrics detected'',
         recommendedAction = ''Immediate medical review required'',
         resolved = False,
         resolvedAt = None,
         alert_providerId = recordedById metrics,
         resolutionNotes = None,
         escalationLevel = 1\<rparr>
      in s\<lparr>alertStorage := (alertStorage s)(alert_id alert \<mapsto> alert)\<rparr>)"

subsection \<open>POST /maternal-profiles\<close>

text \<open>\<open>if (req.body.name) req.body.name = sanitizeString(req.body.name)\<close>\<close>

definition sanitize_if_present :: "js_string option \<Rightarrow> js_string option" where
  "sanitize_if_present v =
     (case v of
        None \<Rightarrow> None
      | Some x \<Rightarrow> if x = [] then Some x else Some (sanitizeString x))"

definition sanitizeProfileBody :: "ProfileBody \<Rightarrow> ProfileBody" where
  "sanitizeProfileBody body =
     body\<lparr>req_name := sanitize_if_present (req_name body),
          req_emergencyContact := sanitize_if_present (req_emergencyContact body)\<rparr>"

text \<open>
  The object literal: the defaults, then \<open>...req.body\<close> over them, then \<open>dueDate\<close> over
  both. \<open>ms\<close> is \<open>new Date(req.body.dueDate).getTime()\<close>.
\<close>

definition newProfile :: "env \<Rightarrow> ProfileBody \<Rightarrow> int \<Rightarrow> MaternalProfile" where
  "newProfile e body ms =
     \<lparr>profile_id = (case req_profile_id body of Some i \<Rightarrow> i | None \<Rightarrow> uuid1 e),
      profile_name = req_name body,
      age = req_age body,
      bloodType = req_bloodType body,
      emergencyContact = req_emergencyContact body,
      dueDate = ms * NANOS_PER_MILLISECOND,
      currentTrimester = (case req_currentTrimester body of Some t \<Rightarrow> t | None \<Rightarrow> FIRST),
      riskLevel = (case req_riskLevel body of Some r \<Rightarrow> r | None \<Rightarrow> LOW),
      primaryCareProviderId = req_primaryCareProviderId body,
      profile_createdAt = time1 e,
      profile_lastUpdated = time2 e,
      medicalHistory = (case req_medicalHistory body of Some h \<Rightarrow> h | None \<Rightarrow> []),
      allergies = (case req_allergies body of Some a \<Rightarrow> a | None \<Rightarrow> []),
      isHighRiskPregnancy = (case req_isHighRiskPregnancy body of Some b \<Rightarrow> b | None \<Rightarrow> False)\<rparr>"

text \<open>
  The handler. \<open>providerStorage.get\<close> throws on an \<open>undefined\<close> key (a body without
  \<open>primaryCareProviderId\<close>) and \<open>BigInt(NaN)\<close> throws; the \<open>catch\<close> answers both with
  500 before anything is stored.
\<close>

definition postMaternalProfiles ::
  "env \<Rightarrow> ProfileBody \<Rightarrow> system \<Rightarrow> SerializedProfile response \<times> system" where
  "postMaternalProfiles e req_body s =
     (let body = sanitizeProfileBody req_body in
      case validateProfile body of
        Some validationError \<Rightarrow> (Failure 400 validationError, s)
      | None \<Rightarrow>
          (case req_primaryCareProviderId body of
             None \<Rightarrow> (Failure 500 ''Internal server error'', s)
           | Some k \<Rightarrow>
               (case providerStorage s k of
                  None \<Rightarrow> (Failure 404 ''Healthcare provider not found'', s)
                | Some provider \<Rightarrow>
                    if \<not> isActive provider
                    then (Failure 400 ''Selected healthcare provider is not active'', s)
                    else
                      (case req_dueDate_getTime body of
                         None \<Rightarrow> (Failure 500 ''Internal server error'', s)
                       | Some ms \<Rightarrow>
                           let profile = newProfile e body ms
                           in (Json (serializeProfile profile),
                               s\<lparr>maternalProfileStorage :=
                                    (maternalProfileStorage s)(profile_id profile \<mapsto> profile)\<rparr>)))))"

subsection \<open>POST /health-metrics\<close>

text \<open>The object literal: \<open>id\<close>, \<open>recordedAt\<close> and the flag, then \<open>...req.body\<close> over them.\<close>

definition newMetrics :: "env \<Rightarrow> MetricsBody \<Rightarrow> HealthMetrics" where
  "newMetrics e body =
     \<lparr>metrics_id = (case req_metrics_id body of Some i \<Rightarrow> i | None \<Rightarrow> uuid1 e),
      metrics_maternalProfileId = req_maternalProfileId body,
      recordedAt = time1 e,
      weight = req_weight body,
      bloodPressureSystolic = req_bloodPressureSystolic body,
      bloodPressureDiastolic = req_bloodPressureDiastolic body,
      bloodSugar = req_bloodSugar body,
      hemoglobinLevels = req_hemoglobinLevels body,
      fetalHeartRate = req_fetalHeartRate body,
      metrics_notes = req_notes body,
      recordedById = req_recordedById body,
      isFlaggedForReview =
        (case req_isFlaggedForReview body of Some f \<Rightarrow> f | None \<Rightarrow> False)\<rparr>"

text \<open>
  The handler. \<open>maternalProfileStorage.get\<close> throws on an \<open>undefined\<close> key (a body
  without \<open>maternalProfileId\<close>), which the \<open>catch\<close> answers with 500 before anything is
  stored. \<open>serializeMetrics\<close> runs after both inserts: when it throws, the answer is
  500 and the stores keep what was inserted.
\<close>

definition postHealthMetrics ::
  "env \<Rightarrow> MetricsBody \<Rightarrow> system \<Rightarrow> SerializedMetrics response \<times> system" where
  "postHealthMetrics e body s =
     (case req_maternalProfileId body of
        None \<Rightarrow> (Failure 500 ''Failed to record health metrics'', s)
      | Some pid \<Rightarrow>
          (case maternalProfileStorage s pid of
             None \<Rightarrow> (Failure 404 ''Maternal profile not found'', s)
           | Some profile \<Rightarrow>
               (case validateHealthMetrics body of
                  Some validationError \<Rightarrow> (Failure 400 validationError, s)
                | None \<Rightarrow>
                    let metrics0 = newMetrics e body;
                        isHighRisk = assessRisk metrics0;
                        metrics =
                          (if isHighRisk then metrics0\<lparr>isFlaggedForReview := True\<rparr>
                           else metrics0);
                        s1 =
                          (if isHighRisk then createHighRiskAlert (uuid2 e) (time2 e) metrics s
                           else s);
                        s2 = s1\<lparr>metricsStorage := (metricsStorage s1)(metrics_id metrics \<mapsto> metrics)\<rparr>
                    in (case serializeMetrics metrics of
                          Inr json \<Rightarrow> (Json json, s2)
                        | Inl err \<Rightarrow> (Failure 500 ''Failed to record health metrics'', s2)))))"

subsection \<open>The system as a transition system\<close>

text \<open>
  The requests the module answers. \<open>GET /maternal-profiles\<close> reads
  \<open>maternalProfileStorage.values()\<close> and \<open>.len()\<close> and calls no \<open>insert\<close>; a request the
  rate limiter turns away reaches no handler. Both leave the stores as they are.
\<close>

datatype request =
    PostMaternalProfiles env ProfileBody
  | PostHealthMetrics env MetricsBody
  | GetMaternalProfiles
  | RateLimited

fun step :: "request \<Rightarrow> system \<Rightarrow> system" where
  "step (PostMaternalProfiles e body) s = snd (postMaternalProfiles e body s)"
| "step (PostHealthMetrics e body) s = snd (postHealthMetrics e body s)"
| "step GetMaternalProfiles s = s"
| "step RateLimited s = s"

text \<open>
  The states the system can be in: it starts with no alert stored (whatever the other
  stores hold, the all-empty stores of a fresh install among them) and answers requests.
\<close>

inductive reachable :: "system \<Rightarrow> bool" where
  initial: "alertStorage s = Map.empty \<Longrightarrow> reachable s"
| request: "reachable s \<Longrightarrow> reachable (step r s)"

text \<open>
  \<open>uuidv4()\<close> issues an identifier that is not in use: the alert identifier a request
  draws is not a key of the alert store.
\<close>

fun alert_uuid_fresh :: "request \<Rightarrow> system \<Rightarrow> bool" where
  "alert_uuid_fresh (PostHealthMetrics e body) s \<longleftrightarrow> uuid2 e \<notin> dom (alertStorage s)"
| "alert_uuid_fresh r s \<longleftrightarrow> True"

text \<open>The keys of the unresolved alerts of profile \<open>p\<close>.\<close>

definition openAlerts :: "system \<Rightarrow> js_string \<Rightarrow> js_string set" where
  "openAlerts s p =
     {k. \<exists>a. alertStorage s k = Some a \<and> alert_maternalProfileId a = Some p \<and> \<not> resolved a}"

text \<open>The shape of an alert as \<open>createHighRiskAlert\<close> builds it.\<close>

definition fresh_alert :: "HealthAlert \<Rightarrow> bool" where
  "fresh_alert a \<longleftrightarrow>
     severity a = HIGH \<and> escalationLevel a = 1 \<and> \<not> resolved a \<and> resolvedAt a = None"

subsection \<open>Concrete inputs\<close>

text \<open>A snapshot with the four readings the classifier looks at.\<close>

definition snapshot :: "real \<Rightarrow> real \<Rightarrow> real \<Rightarrow> real \<Rightarrow> HealthMetrics" where
  "snapshot sys dia sugar hb =
     \<lparr>metrics_id = utf16 ''m1'', metrics_maternalProfileId = Some (utf16 ''p1''),
      recordedAt = 0, weight = Some 60, bloodPressureSystolic = Some sys,
      bloodPressureDiastolic = Some dia, bloodSugar = Some sugar, hemoglobinLevels = Some hb,
      fetalHeartRate = None, metrics_notes = None, recordedById = Some (utf16 ''d1''),
      isFlaggedForReview = False\<rparr>"

text \<open>A snapshot without a systolic reading, its diastolic reading at 95.\<close>

definition partial_snapshot :: HealthMetrics where
  "partial_snapshot = (snapshot 120 95 100 12)\<lparr>bloodPressureSystolic := None\<rparr>"

text \<open>The name \<open>ab\<close> followed by 99 spaces: 101 code units, 2 after trimming.\<close>

definition padded_name :: js_string where
  "padded_name = utf16 ''ab'' @ replicate 99 0x20"

text \<open>A candidate profile that is valid but for its name.\<close>

definition candidate :: "js_string \<Rightarrow> ProfileBody" where
  "candidate n =
     \<lparr>req_profile_id = None, req_name = Some n, req_age = Some 30,
      req_bloodType = Some (utf16 ''O+''), req_emergencyContact = None,
      req_dueDate_getTime = Some 1800000000000, req_currentTrimester = None,
      req_riskLevel = None, req_primaryCareProviderId = Some (utf16 ''d1''),
      req_medicalHistory = None, req_allergies = None, req_isHighRiskPregnancy = None\<rparr>"

text \<open>
  An instant (nanoseconds) that \<open>toISOString\<close> cannot render: its milliseconds lie
  beyond the range of a JavaScript date.
\<close>

definition malformed :: "int \<Rightarrow> bool" where
  "malformed t \<longleftrightarrow> 8640000000000000 < \<bar>bigint_div t NANOS_PER_MILLISECOND\<bar>"

text \<open>A stored profile, a visit whose \<open>scheduledDate\<close> is out of range, and an alert.\<close>

definition profile1 :: MaternalProfile where
  "profile1 =
     \<lparr>profile_id = utf16 ''p1'', profile_name = Some (utf16 ''Amina''), age = Some 30,
      bloodType = Some (utf16 ''O+''), emergencyContact = None,
      dueDate = 1800000000000000000, currentTrimester = FIRST, riskLevel = LOW,
      primaryCareProviderId = Some (utf16 ''d2''), profile_createdAt = 1700000000000000000,
      profile_lastUpdated = 1700000000000000000, medicalHistory = [], allergies = [],
      isHighRiskPregnancy = False\<rparr>"

definition visit1 :: PrenatalVisit where
  "visit1 =
     \<lparr>visit_id = utf16 ''v1'', visit_maternalProfileId = utf16 ''p1'',
      visit_providerId = utf16 ''d2'', scheduledDate = 10000000000000000000000,
      completed = False, visitType = utf16 ''routine'', findings = [], recommendations = [],
      nextVisitDate = None, prescriptions = [], followUpRequired = False,
      cancellationReason = None\<rparr>"

definition alert1 :: HealthAlert where
  "alert1 =
     \<lparr>alert_id = utf16 ''a1'', alert_maternalProfileId = Some (utf16 ''p1''),
      alert_createdAt = 1700000000000000001, severity = HIGH,
      description = ''Abnormal health metrics detected'',
      recommendedAction = ''Immediate medical review required'',
      resolved = False, resolvedAt = None, alert_providerId = Some (utf16 ''d1''),
      resolutionNotes = None, escalationLevel = 1\<rparr>"

text \<open>A store with one profile and one inactive provider, and no alert.\<close>

definition provider1 :: HealthcareProvider where
  "provider1 =
     \<lparr>provider_id = utf16 ''d1'', provider_name = utf16 ''Dr. Osei'',
      specialization = utf16 ''obstetrics'', licenseNumber = utf16 ''L-1'',
      contactInfo = [], facilityId = utf16 ''f1'', isActive = False,
      provider_lastUpdated = 1700000000000000000\<rparr>"

definition clinic :: system where
  "clinic =
     \<lparr>maternalProfileStorage = [utf16 ''p1'' \<mapsto> profile1],
      providerStorage = [utf16 ''d1'' \<mapsto> provider1],
      metricsStorage = Map.empty,
      visitStorage = Map.empty,
      alertStorage = Map.empty\<rparr>"

text \<open>What two successive requests draw from outside.\<close>

definition env1 :: env where
  "env1 = \<lparr>uuid1 = utf16 ''m1'', uuid2 = utf16 ''a1'',
           time1 = 1700000000000000000, time2 = 1700000000000000001\<rparr>"

definition env2 :: env where
  "env2 = \<lparr>uuid1 = utf16 ''m2'', uuid2 = utf16 ''a2'',
           time1 = 1700000060000000000, time2 = 1700000060000000001\<rparr>"

text \<open>A body of \<open>POST /health-metrics\<close> for the stored profile.\<close>

definition reading :: "real \<Rightarrow> real \<Rightarrow> real \<Rightarrow> real \<Rightarrow> bool option \<Rightarrow> MetricsBody" where
  "reading sys dia sugar hb flag =
     \<lparr>req_metrics_id = None, req_maternalProfileId = Some (utf16 ''p1''),
      req_weight = Some 60, req_bloodPressureSystolic = Some sys,
      req_bloodPressureDiastolic = Some dia, req_bloodSugar = Some sugar,
      req_hemoglobinLevels = Some hb, req_fetalHeartRate = None, req_notes = None,
      req_recordedById = Some (utf16 ''d1''), req_isFlaggedForReview = flag\<rparr>"

definition high_reading :: MetricsBody where
  "high_reading = reading 150 95 100 12 None"

text \<open>The store after one and after two recordings of that body.\<close>

definition after_one :: system where
  "after_one = step (PostHealthMetrics env1 high_reading) clinic"

definition after_two :: system where
  "after_two = step (PostHealthMetrics env2 high_reading) after_one"

text \<open>The alert the second recording inserts.\<close>

definition alert2 :: HealthAlert where
  "alert2 = alert1\<lparr>alert_id := utf16 ''a2'', alert_createdAt := 1700000060000000001\<rparr>"

text \<open>A store that holds a resolved alert.\<close>

definition resolved_store :: system where
  "resolved_store =
     clinic\<lparr>alertStorage :=
       [utf16 ''a1'' \<mapsto> alert1\<lparr>resolved := True, resolvedAt := Some 1700000000000000002\<rparr>]\<rparr>"

section \<open>Properties\<close>

subsection \<open>sanitizeString\<close>

text \<open>
  C10. For every input string \<open>s\<close>, \<open>sanitizeString s\<close> contains no \<open><\<close> and no \<open>>\<close>
  character, and sanitizing is idempotent.
\<close>

theorem sanitizeString_clean_idempotent:
  "0x3C \<notin> set (sanitizeString s) \<and> 0x3E \<notin> set (sanitizeString s)
   \<and> sanitizeString (sanitizeString s) = sanitizeString s"
  by (simp add: sanitizeString_def)

theorem sanitizeString_clean_idempotent_witness:
  "0x3C \<notin> set (sanitizeString (utf16 ''<b>a > c''))
   \<and> 0x3E \<notin> set (sanitizeString (utf16 ''<b>a > c''))
   \<and> sanitizeString (sanitizeString (utf16 ''<b>a > c'')) = sanitizeString (utf16 ''<b>a > c'')
   \<and> sanitizeString (utf16 ''<b>a > c'') = utf16 ''ba  c''"
  using sanitizeString_clean_idempotent [of "utf16 ''<b>a > c''"]
  by (simp add: sanitizeString_def utf16_def)

subsection \<open>The risk classifier\<close>

text \<open>
  C3. For every snapshot, with whatever readings it has, the classifier returns HIGH
  (\<open>True\<close>) exactly when its systolic reading is \<open>\<ge> 140\<close>, or its diastolic reading is
  \<open>\<ge> 90\<close>, or its blood sugar is \<open>> 140\<close>, or its hemoglobin is \<open>< 9\<close>, in whatever
  order the triggers are read, and LOW otherwise (a reading that is absent triggers
  nothing); in particular a systolic reading of 140 or more gives HIGH whatever the
  other readings are.
\<close>

theorem assessRisk_thresholds:
  "assessRisk m
     = ((\<exists>x. bloodPressureSystolic m = Some x \<and> x \<ge> 140)
        \<or> (\<exists>x. bloodPressureDiastolic m = Some x \<and> x \<ge> 90)
        \<or> (\<exists>x. bloodSugar m = Some x \<and> x > 140)
        \<or> (\<exists>x. hemoglobinLevels m = Some x \<and> x < 9))
   \<and> assessRisk m
     = ((\<exists>x. hemoglobinLevels m = Some x \<and> x < 9)
        \<or> (\<exists>x. bloodSugar m = Some x \<and> x > 140)
        \<or> (\<exists>x. bloodPressureDiastolic m = Some x \<and> x \<ge> 90)
        \<or> (\<exists>x. bloodPressureSystolic m = Some x \<and> x \<ge> 140))
   \<and> (\<forall>x. bloodPressureSystolic m = Some x \<and> x \<ge> 140 \<longrightarrow> assessRisk m)
   \<and> assessRisk (m\<lparr>bloodPressureSystolic := Some sys, bloodPressureDiastolic := Some dia,
        bloodSugar := Some sugar, hemoglobinLevels := Some hb\<rparr>)
     = (sys \<ge> 140 \<or> dia \<ge> 90 \<or> sugar > 140 \<or> hb < 9)
   \<and> assessRisk (m\<lparr>bloodPressureSystolic := Some sys, bloodPressureDiastolic := Some dia,
        bloodSugar := Some sugar, hemoglobinLevels := Some hb\<rparr>)
     = (hb < 9 \<or> sugar > 140 \<or> dia \<ge> 90 \<or> sys \<ge> 140)
   \<and> (sys \<ge> 140 \<longrightarrow>
        assessRisk (m\<lparr>bloodPressureSystolic := Some sys, bloodPressureDiastolic := Some dia,
          bloodSugar := Some sugar, hemoglobinLevels := Some hb\<rparr>))"
  by (auto simp add: assessRisk_def js_ge_def js_gt_def js_lt_def split: option.splits)

theorem assessRisk_thresholds_witness:
  "bloodPressureSystolic (snapshot 150 80 100 12) = Some 150 \<and> (150::real) \<ge> 140
   \<and> assessRisk (snapshot 150 80 100 12) \<and> \<not> assessRisk (snapshot 120 80 100 12)
   \<and> bloodPressureSystolic partial_snapshot = None
   \<and> bloodPressureDiastolic partial_snapshot = Some 95
   \<and> assessRisk partial_snapshot
   \<and> \<not> assessRisk (partial_snapshot\<lparr>bloodPressureDiastolic := None\<rparr>)"
  using assessRisk_thresholds [where m = "snapshot 150 80 100 12" and sys = 150 and dia = 80
      and sugar = 100 and hb = 12]
    assessRisk_thresholds [where m = "snapshot 120 80 100 12" and sys = 120 and dia = 80
      and sugar = 100 and hb = 12]
    assessRisk_thresholds [where m = partial_snapshot and sys = 120 and dia = 80
      and sugar = 100 and hb = 12]
    assessRisk_thresholds [where m = "partial_snapshot\<lparr>bloodPressureDiastolic := None\<rparr>"
      and sys = 120 and dia = 80 and sugar = 100 and hb = 12]
  by (simp add: snapshot_def partial_snapshot_def)

text \<open>
  C5, as stated: every snapshot whose readings lie within the validation ranges is
  classified LOW. The snapshot 150/80, blood sugar 100, hemoglobin 12 lies within the
  ranges and is classified HIGH.
\<close>

theorem assessRisk_in_range_counterexample:
  "bloodPressureSystolic (snapshot 150 80 100 12) = Some 150 \<and> (70::real) \<le> 150 \<and> (150::real) \<le> 190
   \<and> bloodPressureDiastolic (snapshot 150 80 100 12) = Some 80 \<and> (40::real) \<le> 80 \<and> (80::real) \<le> 120
   \<and> bloodSugar (snapshot 150 80 100 12) = Some 100 \<and> (30::real) \<le> 100 \<and> (100::real) \<le> 500
   \<and> assessRisk (snapshot 150 80 100 12)"
  by (simp add: snapshot_def assessRisk_def js_ge_def)

text \<open>
  C5, amended: every snapshot with systolic \<open>< 140\<close>, diastolic \<open>< 90\<close>, blood sugar
  \<open>\<le> 140\<close> and hemoglobin \<open>\<ge> 9\<close> is classified LOW (\<open>False\<close>).
\<close>

theorem assessRisk_low_below_thresholds:
  assumes "sys < 140" and "dia < 90" and "sugar \<le> 140" and "9 \<le> hb"
  shows "\<not> assessRisk (m\<lparr>bloodPressureSystolic := Some sys, bloodPressureDiastolic := Some dia,
            bloodSugar := Some sugar, hemoglobinLevels := Some hb\<rparr>)"
  using assms by (simp add: assessRisk_def js_ge_def js_gt_def js_lt_def)

theorem assessRisk_low_below_thresholds_witness:
  "(120::real) < 140 \<and> (80::real) < 90 \<and> (100::real) \<le> 140 \<and> (9::real) \<le> 12
   \<and> \<not> assessRisk (snapshot 120 80 100 12)"
  using assessRisk_low_below_thresholds [where m = "snapshot 120 80 100 12" and sys = 120
      and dia = 80 and sugar = 100 and hb = 12]
  by (simp add: snapshot_def)

subsection \<open>validateProfile\<close>

lemma js_trim_Nil: "js_trim [] = []"
  by (simp add: js_trim_def)

lemma dropWhile_replicate_whitespace:
  "js_whitespace c \<Longrightarrow> dropWhile js_whitespace (replicate n c @ ys) = dropWhile js_whitespace ys"
  by (induction n) simp_all

lemma js_whitespace_space: "js_whitespace 0x20"
  by (simp add: js_whitespace_def)

lemma js_trim_padded: "js_trim padded_name = utf16 ''ab''"
  by (simp add: js_trim_def padded_name_def utf16_def dropWhile_replicate_whitespace
      js_whitespace_space)
     (simp add: js_whitespace_def)

text \<open>
  C8, as stated: the name error is reported exactly when the trimmed length of the name
  is below 2 or above 100. The name \<open>ab\<close> followed by 99 spaces has trimmed length 2 and
  is refused with the name error: the upper bound is checked on the untrimmed name.
\<close>

theorem validateProfile_name_rule_counterexample:
  "length (js_trim padded_name) = 2 \<and> length padded_name = 101
   \<and> validateProfile (candidate padded_name) = Some name_error"
  by (simp add: js_trim_padded validateProfile_def name_invalid_def candidate_def)
     (simp add: padded_name_def utf16_def)

text \<open>
  C8, amended: the name error is reported exactly when the name is absent, or its
  trimmed length is below 2, or its untrimmed length is above 100; a name of trimmed
  length at least 2 and untrimmed length at most 100 passes the name rule. The rules
  are checked in order (name, medical history, age, blood type) and the first violation
  is the one reported.
\<close>

theorem validateProfile_name_rule:
  "(validateProfile p = Some name_error) =
     (case req_name p of
        None \<Rightarrow> True
      | Some n \<Rightarrow> length (js_trim n) < 2 \<or> 100 < length n)
   \<and> (req_name p = Some n \<and> 2 \<le> length (js_trim n) \<and> length n \<le> 100
        \<longrightarrow> validateProfile p \<noteq> Some name_error)
   \<and> (validateProfile p = Some history_error) =
       (\<not> name_invalid (req_name p) \<and> history_invalid (req_medicalHistory p))
   \<and> (validateProfile p = Some age_error) =
       (\<not> name_invalid (req_name p) \<and> \<not> history_invalid (req_medicalHistory p)
        \<and> age_invalid (req_age p))
   \<and> (validateProfile p = Some bloodType_error) =
       (\<not> name_invalid (req_name p) \<and> \<not> history_invalid (req_medicalHistory p)
        \<and> \<not> age_invalid (req_age p) \<and> bloodType_invalid (req_bloodType p))"
  by (auto simp add: validateProfile_def name_invalid_def name_error_def history_error_def
      age_error_def bloodType_error_def js_trim_Nil split: option.splits)

theorem validateProfile_name_rule_witness:
  "req_name (candidate (utf16 ''Amina'')) = Some (utf16 ''Amina'')
   \<and> 2 \<le> length (js_trim (utf16 ''Amina'')) \<and> length (utf16 ''Amina'') \<le> 100
   \<and> validateProfile (candidate (utf16 ''Amina'')) \<noteq> Some name_error
   \<and> validateProfile (candidate (utf16 ''Amina'')) = None"
  using validateProfile_name_rule [of "candidate (utf16 ''Amina'')" "utf16 ''Amina''"]
  by (simp add: candidate_def utf16_def js_trim_def js_whitespace_def validateProfile_def
      name_invalid_def history_invalid_def age_invalid_def bloodType_invalid_def bloodTypes_def)

subsection \<open>POST /maternal-profiles\<close>

text \<open>
  C6, as stated: every create-profile request that references a stored inactive provider
  fails with the error that the provider is not active. The body is validated first: a
  request with an empty name that references the inactive provider fails with the name
  error.
\<close>

theorem inactive_provider_counterexample:
  "req_primaryCareProviderId (candidate []) = Some (utf16 ''d1'')
   \<and> providerStorage clinic (utf16 ''d1'') = Some provider1
   \<and> \<not> isActive provider1
   \<and> fst (postMaternalProfiles env1 (candidate []) clinic) = Failure 400 name_error
   \<and> name_error \<noteq> ''Selected healthcare provider is not active''"
  by (simp add: postMaternalProfiles_def sanitizeProfileBody_def sanitize_if_present_def
      validateProfile_def name_invalid_def candidate_def clinic_def provider1_def name_error_def)

text \<open>
  C6, amended: a create-profile request that references a stored inactive provider
  fails and leaves every store, the profile store among them, as it was; the error is
  \<open>Selected healthcare provider is not active\<close> when the sanitized body passes
  \<open>validateProfile\<close>, and the validation error otherwise.
\<close>

theorem inactive_provider_rejected:
  assumes "req_primaryCareProviderId body = Some k"
    and "providerStorage s k = Some provider"
    and "\<not> isActive provider"
  shows "snd (postMaternalProfiles e body s) = s
    \<and> (validateProfile (sanitizeProfileBody body) = None \<longrightarrow>
         fst (postMaternalProfiles e body s)
           = Failure 400 ''Selected healthcare provider is not active'')
    \<and> (\<forall>err. validateProfile (sanitizeProfileBody body) = Some err \<longrightarrow>
         fst (postMaternalProfiles e body s) = Failure 400 err)"
  using assms
  by (simp add: postMaternalProfiles_def Let_def sanitizeProfileBody_def split: option.splits)

theorem inactive_provider_rejected_witness:
  "req_primaryCareProviderId (candidate (utf16 ''Amina'')) = Some (utf16 ''d1'')
   \<and> providerStorage clinic (utf16 ''d1'') = Some provider1
   \<and> \<not> isActive provider1
   \<and> validateProfile (sanitizeProfileBody (candidate (utf16 ''Amina''))) = None
   \<and> snd (postMaternalProfiles env1 (candidate (utf16 ''Amina'')) clinic) = clinic
   \<and> fst (postMaternalProfiles env1 (candidate (utf16 ''Amina'')) clinic)
       = Failure 400 ''Selected healthcare provider is not active''
   \<and> validateProfile (sanitizeProfileBody (candidate [])) = Some name_error
   \<and> snd (postMaternalProfiles env1 (candidate []) clinic) = clinic
   \<and> fst (postMaternalProfiles env1 (candidate []) clinic) = Failure 400 name_error"
proof -
  have k: "req_primaryCareProviderId (candidate n) = Some (utf16 ''d1'')" for n
    by (simp add: candidate_def)
  have p: "providerStorage clinic (utf16 ''d1'') = Some provider1"
    by (simp add: clinic_def)
  have i: "\<not> isActive provider1"
    by (simp add: provider1_def)
  have v1: "validateProfile (sanitizeProfileBody (candidate (utf16 ''Amina''))) = None"
    by (simp add: candidate_def utf16_def js_trim_def js_whitespace_def validateProfile_def
        sanitizeProfileBody_def sanitize_if_present_def sanitizeString_def
        name_invalid_def history_invalid_def age_invalid_def bloodType_invalid_def
        bloodTypes_def)
  have v2: "validateProfile (sanitizeProfileBody (candidate [])) = Some name_error"
    by (simp add: candidate_def validateProfile_def sanitizeProfileBody_def
        sanitize_if_present_def name_invalid_def)
  show ?thesis
    using inactive_provider_rejected [OF k [of "utf16 ''Amina''"] p i, where e = env1]
      inactive_provider_rejected [OF k [of "[]"] p i, where e = env1] k p i v1 v2
    by simp
qed

subsection \<open>POST /health-metrics\<close>

lemma assessRisk_flag [simp]: "assessRisk (m\<lparr>isFlaggedForReview := f\<rparr>) = assessRisk m"
  by (simp add: assessRisk_def)

lemma postHealthMetrics_accepted:
  assumes "req_maternalProfileId body = Some pid"
    and "maternalProfileStorage s pid = Some profile"
    and "validateHealthMetrics body = None"
  shows "snd (postHealthMetrics e body s) =
    (let m0 = newMetrics e body;
         m = (if assessRisk m0 then m0\<lparr>isFlaggedForReview := True\<rparr> else m0);
         s1 = (if assessRisk m0 then createHighRiskAlert (uuid2 e) (time2 e) m s else s)
     in s1\<lparr>metricsStorage := (metricsStorage s1)(metrics_id m \<mapsto> m)\<rparr>)"
  using assms by (simp add: postHealthMetrics_def Let_def split: sum.splits)

lemma metricsStorage_createHighRiskAlert [simp]:
  "metricsStorage (createHighRiskAlert u t m s) = metricsStorage s"
  by (simp add: createHighRiskAlert_def)

lemma alertStorage_createHighRiskAlert:
  "\<exists>a. alertStorage (createHighRiskAlert u t m s) = (alertStorage s)(u \<mapsto> a)
     \<and> fresh_alert a \<and> resolutionNotes a = None \<and> alert_id a = u
     \<and> alert_maternalProfileId a = metrics_maternalProfileId m
     \<and> alert_providerId a = recordedById m"
  by (rule exI [where x = "the (alertStorage (createHighRiskAlert u t m s) u)"])
     (simp add: createHighRiskAlert_def fresh_alert_def)

text \<open>
  C2, as stated: the stored snapshot is flagged if and only if its verdict is HIGH, and
  a LOW verdict stores the flag false, for every request body. A body that carries
  \<open>isFlaggedForReview: true\<close> with readings of verdict LOW is stored flagged: the body
  is spread over the default.
\<close>

theorem stored_flag_counterexample:
  "validateHealthMetrics (reading 120 80 100 12 (Some True)) = None
   \<and> \<not> assessRisk (newMetrics env1 (reading 120 80 100 12 (Some True)))
   \<and> map_option isFlaggedForReview
        (metricsStorage (snd (postHealthMetrics env1 (reading 120 80 100 12 (Some True)) clinic))
           (utf16 ''m1'')) = Some True
   \<and> map_option assessRisk
        (metricsStorage (snd (postHealthMetrics env1 (reading 120 80 100 12 (Some True)) clinic))
           (utf16 ''m1'')) = Some False"
  by (simp add: postHealthMetrics_def Let_def reading_def clinic_def env1_def
      validateHealthMetrics_def out_of_range_def newMetrics_def assessRisk_def js_ge_def
      js_gt_def js_lt_def serializeMetrics_def instant_toISOString_def date_toISOString_def
      bigint_div_def NANOS_PER_MILLISECOND_def)

text \<open>
  C2, amended: the snapshot stored for an accepted request is flagged if and only if
  its verdict is HIGH or the body itself carries \<open>isFlaggedForReview = true\<close>; for a
  body that does not, flagged if and only if HIGH. When the verdict is LOW no alert is
  created, for every body.
\<close>

theorem stored_flag:
  assumes "req_maternalProfileId body = Some pid"
    and "maternalProfileStorage s pid = Some profile"
    and "validateHealthMetrics body = None"
  shows "(\<exists>m. metricsStorage (snd (postHealthMetrics e body s))
               = (metricsStorage s)(metrics_id (newMetrics e body) \<mapsto> m)
            \<and> assessRisk m = assessRisk (newMetrics e body)
            \<and> isFlaggedForReview m = (assessRisk m \<or> req_isFlaggedForReview body = Some True)
            \<and> (req_isFlaggedForReview body \<noteq> Some True \<longrightarrow> isFlaggedForReview m = assessRisk m))
     \<and> (\<not> assessRisk (newMetrics e body) \<longrightarrow>
          alertStorage (snd (postHealthMetrics e body s)) = alertStorage s)"
proof -
  let ?m0 = "newMetrics e body"
  have flag0: "isFlaggedForReview ?m0 = (req_isFlaggedForReview body = Some True)"
    by (simp add: newMetrics_def split: option.splits)
  show ?thesis
  proof (cases "assessRisk ?m0")
    case True
    then have "\<exists>m. metricsStorage (snd (postHealthMetrics e body s))
               = (metricsStorage s)(metrics_id ?m0 \<mapsto> m)
            \<and> assessRisk m = assessRisk ?m0
            \<and> isFlaggedForReview m = (assessRisk m \<or> req_isFlaggedForReview body = Some True)
            \<and> (req_isFlaggedForReview body \<noteq> Some True \<longrightarrow> isFlaggedForReview m = assessRisk m)"
      by (intro exI [where x = "?m0\<lparr>isFlaggedForReview := True\<rparr>"])
         (simp add: postHealthMetrics_accepted [OF assms] Let_def)
    with True show ?thesis by simp
  next
    case False
    then have "\<exists>m. metricsStorage (snd (postHealthMetrics e body s))
               = (metricsStorage s)(metrics_id ?m0 \<mapsto> m)
            \<and> assessRisk m = assessRisk ?m0
            \<and> isFlaggedForReview m = (assessRisk m \<or> req_isFlaggedForReview body = Some True)
            \<and> (req_isFlaggedForReview body \<noteq> Some True \<longrightarrow> isFlaggedForReview m = assessRisk m)"
      by (intro exI [where x = "?m0"])
         (simp add: postHealthMetrics_accepted [OF assms] Let_def flag0)
    moreover from False have "alertStorage (snd (postHealthMetrics e body s)) = alertStorage s"
      by (simp add: postHealthMetrics_accepted [OF assms] Let_def)
    ultimately show ?thesis by simp
  qed
qed

theorem stored_flag_witness:
  "req_maternalProfileId (reading 150 95 100 12 None) = Some (utf16 ''p1'')
   \<and> maternalProfileStorage clinic (utf16 ''p1'') = Some profile1
   \<and> validateHealthMetrics (reading 150 95 100 12 None) = None
   \<and> assessRisk (newMetrics env1 (reading 150 95 100 12 None))
   \<and> req_isFlaggedForReview (reading 150 95 100 12 None) \<noteq> Some True
   \<and> map_option isFlaggedForReview
        (metricsStorage (snd (postHealthMetrics env1 (reading 150 95 100 12 None) clinic))
           (utf16 ''m1'')) = Some True
   \<and> validateHealthMetrics (reading 120 80 100 12 None) = None
   \<and> \<not> assessRisk (newMetrics env1 (reading 120 80 100 12 None))
   \<and> map_option isFlaggedForReview
        (metricsStorage (snd (postHealthMetrics env1 (reading 120 80 100 12 None) clinic))
           (utf16 ''m1'')) = Some False
   \<and> alertStorage (snd (postHealthMetrics env1 (reading 120 80 100 12 None) clinic))
       = alertStorage clinic"
proof -
  have p: "req_maternalProfileId (reading a b c d f) = Some (utf16 ''p1'')" for a b c d f
    by (simp add: reading_def)
  have q: "maternalProfileStorage clinic (utf16 ''p1'') = Some profile1"
    by (simp add: clinic_def)
  have v: "validateHealthMetrics (reading 150 95 100 12 None) = None"
    "validateHealthMetrics (reading 120 80 100 12 None) = None"
    by (simp_all add: validateHealthMetrics_def out_of_range_def reading_def)
  have r: "assessRisk (newMetrics env1 (reading 150 95 100 12 None))"
    "\<not> assessRisk (newMetrics env1 (reading 120 80 100 12 None))"
    by (simp_all add: assessRisk_def newMetrics_def reading_def js_ge_def js_gt_def js_lt_def)
  have i: "metrics_id (newMetrics env1 (reading a b c d None)) = utf16 ''m1''" for a b c d
    by (simp add: newMetrics_def reading_def env1_def)
  have f: "req_isFlaggedForReview (reading a b c d None) \<noteq> Some True" for a b c d
    by (simp add: reading_def)
  show ?thesis
    using stored_flag [OF p q v(1), where e = env1] stored_flag [OF p q v(2), where e = env1]
      p q v r f
    by (auto simp add: i)
qed

subsection \<open>Alerts\<close>

lemma alertStorage_postMaternalProfiles:
  "alertStorage (snd (postMaternalProfiles e b s)) = alertStorage s"
  by (simp add: postMaternalProfiles_def Let_def split: option.splits)

lemma alertStorage_postHealthMetrics:
  "alertStorage (snd (postHealthMetrics e b s)) = alertStorage s
   \<or> alertStorage (snd (postHealthMetrics e b s))
       = alertStorage (createHighRiskAlert (uuid2 e) (time2 e)
           ((newMetrics e b)\<lparr>isFlaggedForReview := True\<rparr>) s)"
  by (simp add: postHealthMetrics_def Let_def split: option.splits sum.splits)

lemma step_alertStorage:
  "alertStorage (step r s) = alertStorage s
   \<or> (\<exists>e b a. r = PostHealthMetrics e b
         \<and> alertStorage (step r s) = (alertStorage s)(uuid2 e \<mapsto> a)
         \<and> fresh_alert a \<and> resolutionNotes a = None)"
proof (cases r)
  case (PostMaternalProfiles e b)
  then show ?thesis by (simp add: alertStorage_postMaternalProfiles)
next
  case (PostHealthMetrics e b)
  then show ?thesis
    using alertStorage_postHealthMetrics [of e b s]
      alertStorage_createHighRiskAlert [of "uuid2 e" "time2 e"
        "(newMetrics e b)\<lparr>isFlaggedForReview := True\<rparr>" s]
    by auto
qed simp_all

lemma step_new_alert:
  assumes "alertStorage (step r s) k = Some a"
  shows "alertStorage s k = Some a \<or> (fresh_alert a \<and> resolutionNotes a = None)"
  using step_alertStorage [of r s] assms by (auto split: if_splits)

lemma step_keeps_alert:
  assumes "alert_uuid_fresh r s" and "alertStorage s k = Some a"
  shows "alertStorage (step r s) k = Some a"
  using step_alertStorage [of r s] assms by (auto simp add: domIff)

lemma reachable_alerts_fresh:
  "reachable s \<Longrightarrow> alertStorage s k = Some a \<Longrightarrow> fresh_alert a"
proof (induction arbitrary: k a rule: reachable.induct)
  case (initial s)
  then show ?case by simp
next
  case (request s r)
  from step_new_alert [OF request.prems] request.IH show ?case by blast
qed

lemma high_reading_accepted:
  "req_maternalProfileId high_reading = Some (utf16 ''p1'')"
  "validateHealthMetrics high_reading = None"
  "assessRisk (newMetrics e high_reading)"
  by (simp_all add: high_reading_def reading_def validateHealthMetrics_def out_of_range_def
      assessRisk_def newMetrics_def js_ge_def)

lemma clinic_stores:
  "maternalProfileStorage clinic (utf16 ''p1'') = Some profile1"
  "alertStorage clinic = Map.empty"
  by (simp_all add: clinic_def)

lemma after_one_stores:
  "maternalProfileStorage after_one (utf16 ''p1'') = Some profile1"
  "alertStorage after_one = [utf16 ''a1'' \<mapsto> alert1]"
proof -
  let ?m = "(newMetrics env1 high_reading)\<lparr>isFlaggedForReview := True\<rparr>"
  have s: "after_one =
      (createHighRiskAlert (uuid2 env1) (time2 env1) ?m clinic)
        \<lparr>metricsStorage := (metricsStorage clinic)(metrics_id ?m \<mapsto> ?m)\<rparr>"
    by (simp add: after_one_def high_reading_accepted(3) Let_def
        postHealthMetrics_accepted [OF high_reading_accepted(1) clinic_stores(1)
          high_reading_accepted(2)])
  show "maternalProfileStorage after_one (utf16 ''p1'') = Some profile1"
    unfolding s by (simp add: createHighRiskAlert_def clinic_def)
  show "alertStorage after_one = [utf16 ''a1'' \<mapsto> alert1]"
    unfolding s
    by (simp add: createHighRiskAlert_def clinic_def env1_def alert1_def newMetrics_def
        high_reading_def reading_def)
qed

lemma after_two_stores:
  "alertStorage after_two = [utf16 ''a1'' \<mapsto> alert1, utf16 ''a2'' \<mapsto> alert2]"
proof -
  let ?m = "(newMetrics env2 high_reading)\<lparr>isFlaggedForReview := True\<rparr>"
  have s: "after_two =
      (createHighRiskAlert (uuid2 env2) (time2 env2) ?m after_one)
        \<lparr>metricsStorage := (metricsStorage after_one)(metrics_id ?m \<mapsto> ?m)\<rparr>"
    by (simp add: after_two_def high_reading_accepted(3) Let_def
        postHealthMetrics_accepted [OF high_reading_accepted(1) after_one_stores(1)
          high_reading_accepted(2)])
  show ?thesis
    unfolding s
    by (simp add: createHighRiskAlert_def after_one_stores(2) env2_def alert1_def alert2_def
        newMetrics_def high_reading_def reading_def)
qed

lemma ids_distinct: "utf16 ''a1'' \<noteq> utf16 ''a2''"
  by (simp add: utf16_def)

lemma open_after_two: "openAlerts after_two (utf16 ''p1'') = {utf16 ''a1'', utf16 ''a2''}"
  by (auto simp add: openAlerts_def after_two_stores alert1_def alert2_def split: if_splits)

lemma openAlerts_insert:
  assumes "alertStorage s' = (alertStorage s)(u \<mapsto> a)"
    and "alert_maternalProfileId a = Some p" and "\<not> resolved a"
    and "u \<notin> dom (alertStorage s)"
  shows "openAlerts s' p = insert u (openAlerts s p)"
  using assms by (auto simp add: openAlerts_def domIff split: if_splits)

lemma high_recording_step:
  assumes "req_maternalProfileId body = Some p"
    and "maternalProfileStorage s p = Some profile"
    and "validateHealthMetrics body = None"
    and "assessRisk (newMetrics e body)"
  shows "\<exists>a. alertStorage (step (PostHealthMetrics e body) s) = (alertStorage s)(uuid2 e \<mapsto> a)
           \<and> fresh_alert a \<and> alert_maternalProfileId a = Some p"
    and "maternalProfileStorage (step (PostHealthMetrics e body) s) = maternalProfileStorage s"
proof -
  let ?m = "(newMetrics e body)\<lparr>isFlaggedForReview := True\<rparr>"
  have s: "step (PostHealthMetrics e body) s =
      (createHighRiskAlert (uuid2 e) (time2 e) ?m s)
        \<lparr>metricsStorage := (metricsStorage s)(metrics_id ?m \<mapsto> ?m)\<rparr>"
    using assms(4) by (simp add: postHealthMetrics_accepted [OF assms(1-3)] Let_def)
  have "metrics_maternalProfileId ?m = Some p"
    using assms(1) by (simp add: newMetrics_def)
  with alertStorage_createHighRiskAlert [of "uuid2 e" "time2 e" ?m s]
  show "\<exists>a. alertStorage (step (PostHealthMetrics e body) s) = (alertStorage s)(uuid2 e \<mapsto> a)
           \<and> fresh_alert a \<and> alert_maternalProfileId a = Some p"
    unfolding s by auto
  show "maternalProfileStorage (step (PostHealthMetrics e body) s) = maternalProfileStorage s"
    unfolding s by (simp add: createHighRiskAlert_def)
qed

lemma two_high_recordings:
  assumes prof: "maternalProfileStorage s p = Some profile"
    and b1: "req_maternalProfileId b1 = Some p" "validateHealthMetrics b1 = None"
      "assessRisk (newMetrics e1 b1)"
    and b2: "req_maternalProfileId b2 = Some p" "validateHealthMetrics b2 = None"
      "assessRisk (newMetrics e2 b2)"
    and fresh: "uuid2 e1 \<notin> dom (alertStorage s)" "uuid2 e2 \<notin> dom (alertStorage s)"
      "uuid2 e2 \<noteq> uuid2 e1"
  shows "openAlerts (step (PostHealthMetrics e1 b1) s) p = insert (uuid2 e1) (openAlerts s p)
    \<and> openAlerts (step (PostHealthMetrics e2 b2) (step (PostHealthMetrics e1 b1) s)) p
        = insert (uuid2 e2) (insert (uuid2 e1) (openAlerts s p))
    \<and> uuid2 e1 \<notin> openAlerts s p \<and> uuid2 e2 \<notin> openAlerts s p
    \<and> map_option escalationLevel (alertStorage (step (PostHealthMetrics e1 b1) s) (uuid2 e1))
        = Some 1
    \<and> map_option escalationLevel
         (alertStorage (step (PostHealthMetrics e2 b2) (step (PostHealthMetrics e1 b1) s))
            (uuid2 e1)) = Some 1
    \<and> map_option escalationLevel
         (alertStorage (step (PostHealthMetrics e2 b2) (step (PostHealthMetrics e1 b1) s))
            (uuid2 e2)) = Some 1
    \<and> (\<forall>k a. alertStorage s k = Some a \<longrightarrow>
          alertStorage (step (PostHealthMetrics e2 b2) (step (PostHealthMetrics e1 b1) s)) k
            = Some a)"
proof -
  let ?s1 = "step (PostHealthMetrics e1 b1) s"
  let ?s2 = "step (PostHealthMetrics e2 b2) ?s1"
  from high_recording_step [OF b1(1) prof b1(2,3)]
  obtain a1 where a1: "alertStorage ?s1 = (alertStorage s)(uuid2 e1 \<mapsto> a1)"
      "fresh_alert a1" "alert_maternalProfileId a1 = Some p"
    and prof1: "maternalProfileStorage ?s1 p = Some profile"
    using prof by auto
  from high_recording_step [OF b2(1) prof1 b2(2,3)]
  obtain a2 where a2: "alertStorage ?s2 = (alertStorage ?s1)(uuid2 e2 \<mapsto> a2)"
      "fresh_alert a2" "alert_maternalProfileId a2 = Some p"
    by auto
  have fresh2: "uuid2 e2 \<notin> dom (alertStorage ?s1)"
    using fresh by (simp add: a1(1) del: step.simps)
  have unresolved: "\<not> resolved a1" "\<not> resolved a2"
    using a1(2) a2(2) by (simp_all add: fresh_alert_def)
  have o1: "openAlerts ?s1 p = insert (uuid2 e1) (openAlerts s p)"
    by (rule openAlerts_insert [OF a1(1) a1(3) unresolved(1) fresh(1)])
  have o2: "openAlerts ?s2 p = insert (uuid2 e2) (openAlerts ?s1 p)"
    by (rule openAlerts_insert [OF a2(1) a2(3) unresolved(2) fresh2])
  have notin: "uuid2 e1 \<notin> openAlerts s p" "uuid2 e2 \<notin> openAlerts s p"
    using fresh by (auto simp add: openAlerts_def)
  have keep: "\<forall>k a. alertStorage s k = Some a \<longrightarrow> alertStorage ?s2 k = Some a"
    using fresh by (auto simp add: a1(1) a2(1) simp del: step.simps)
  show ?thesis
    using o1 o2 notin keep a1(2) a2(2) fresh(3)
    by (simp add: a1(1) a2(1) fresh_alert_def del: step.simps)
qed

lemma env_uuids: "uuid2 env1 = utf16 ''a1''" "uuid2 env2 = utf16 ''a2''"
  by (simp_all add: env1_def env2_def)

lemma reachable_after_one: "reachable after_one"
  unfolding after_one_def by (intro reachable.request reachable.initial clinic_stores(2))

text \<open>
  C1, as stated: after two consecutive HIGH-triggering recordings for a profile, exactly
  one open alert exists, with \<open>escalationLevel = 2\<close>. After two such recordings the
  store holds two open alerts for the profile, each with \<open>escalationLevel = 1\<close>.
\<close>

theorem escalation_counterexample:
  "openAlerts after_two (utf16 ''p1'') = {utf16 ''a1'', utf16 ''a2''}
   \<and> utf16 ''a1'' \<noteq> utf16 ''a2''
   \<and> map_option escalationLevel (alertStorage after_two (utf16 ''a1'')) = Some 1
   \<and> map_option escalationLevel (alertStorage after_two (utf16 ''a2'')) = Some 1
   \<and> \<not> (\<exists>k a. openAlerts after_two (utf16 ''p1'') = {k} \<and> alertStorage after_two k = Some a
            \<and> escalationLevel a = 2)"
proof -
  have "\<not> (\<exists>k. openAlerts after_two (utf16 ''p1'') = {k})"
    using ids_distinct by (auto simp add: open_after_two doubleton_eq_iff)
  then show ?thesis
    using ids_distinct by (simp add: open_after_two after_two_stores alert1_def alert2_def)
qed

text \<open>
  C1, amended: each HIGH-triggering recording for a profile inserts a new open alert
  with \<open>escalationLevel = 1\<close> under the identifier it draws, and leaves every alert
  already stored as it was; after two consecutive such recordings the profile has two
  more open alerts than before, each with \<open>escalationLevel = 1\<close>.
\<close>

theorem each_high_recording_new_alert:
  assumes "maternalProfileStorage s p = Some profile"
    and "req_maternalProfileId b1 = Some p" and "validateHealthMetrics b1 = None"
    and "assessRisk (newMetrics e1 b1)"
    and "req_maternalProfileId b2 = Some p" and "validateHealthMetrics b2 = None"
    and "assessRisk (newMetrics e2 b2)"
    and "uuid2 e1 \<notin> dom (alertStorage s)" and "uuid2 e2 \<notin> dom (alertStorage s)"
    and "uuid2 e2 \<noteq> uuid2 e1"
  shows "openAlerts (step (PostHealthMetrics e1 b1) s) p = insert (uuid2 e1) (openAlerts s p)
    \<and> openAlerts (step (PostHealthMetrics e2 b2) (step (PostHealthMetrics e1 b1) s)) p
        = insert (uuid2 e2) (insert (uuid2 e1) (openAlerts s p))
    \<and> uuid2 e1 \<notin> openAlerts s p \<and> uuid2 e2 \<notin> openAlerts s p
    \<and> map_option escalationLevel (alertStorage (step (PostHealthMetrics e1 b1) s) (uuid2 e1))
        = Some 1
    \<and> map_option escalationLevel
         (alertStorage (step (PostHealthMetrics e2 b2) (step (PostHealthMetrics e1 b1) s))
            (uuid2 e1)) = Some 1
    \<and> map_option escalationLevel
         (alertStorage (step (PostHealthMetrics e2 b2) (step (PostHealthMetrics e1 b1) s))
            (uuid2 e2)) = Some 1
    \<and> (\<forall>k a. alertStorage s k = Some a \<longrightarrow>
          alertStorage (step (PostHealthMetrics e2 b2) (step (PostHealthMetrics e1 b1) s)) k
            = Some a)"
  using assms by (rule two_high_recordings)

theorem each_high_recording_new_alert_witness:
  "maternalProfileStorage clinic (utf16 ''p1'') = Some profile1
   \<and> req_maternalProfileId high_reading = Some (utf16 ''p1'')
   \<and> validateHealthMetrics high_reading = None
   \<and> assessRisk (newMetrics env1 high_reading) \<and> assessRisk (newMetrics env2 high_reading)
   \<and> uuid2 env1 \<notin> dom (alertStorage clinic) \<and> uuid2 env2 \<notin> dom (alertStorage clinic)
   \<and> uuid2 env2 \<noteq> uuid2 env1
   \<and> openAlerts clinic (utf16 ''p1'') = {}
   \<and> openAlerts (step (PostHealthMetrics env1 high_reading) clinic) (utf16 ''p1'')
       = {utf16 ''a1''}
   \<and> openAlerts (step (PostHealthMetrics env2 high_reading)
         (step (PostHealthMetrics env1 high_reading) clinic)) (utf16 ''p1'')
       = {utf16 ''a2'', utf16 ''a1''}
   \<and> map_option escalationLevel
        (alertStorage (step (PostHealthMetrics env2 high_reading)
           (step (PostHealthMetrics env1 high_reading) clinic)) (utf16 ''a1'')) = Some 1
   \<and> map_option escalationLevel
        (alertStorage (step (PostHealthMetrics env2 high_reading)
           (step (PostHealthMetrics env1 high_reading) clinic)) (utf16 ''a2'')) = Some 1"
proof -
  have f: "uuid2 env1 \<notin> dom (alertStorage clinic)" "uuid2 env2 \<notin> dom (alertStorage clinic)"
    by (simp_all add: clinic_stores)
  have d: "uuid2 env2 \<noteq> uuid2 env1"
    using ids_distinct by (simp add: env_uuids)
  have o: "openAlerts clinic (utf16 ''p1'') = {}"
    by (simp add: openAlerts_def clinic_stores)
  note t = each_high_recording_new_alert [OF clinic_stores(1) high_reading_accepted
      high_reading_accepted f d]
  show ?thesis
    using t clinic_stores(1) high_reading_accepted f d
    by (simp add: o env_uuids del: step.simps)
qed




text \<open>
  C4, as stated: an operation resolves a stored alert, setting \<open>resolved = true\<close>,
  \<open>resolvedAt\<close> and the notes. The module has no such operation: no request leaves the
  stored alert \<open>a1\<close> resolved.
\<close>

theorem resolveAlert_counterexample:
  "alertStorage after_one (utf16 ''a1'') = Some alert1 \<and> \<not> resolved alert1
   \<and> \<not> (\<exists>r a. alertStorage (step r after_one) (utf16 ''a1'') = Some a \<and> resolved a)"
proof -
  have "\<not> resolved a" if "alertStorage (step r after_one) (utf16 ''a1'') = Some a" for r a
  proof -
    have "reachable (step r after_one)"
      using reachable_after_one by (rule reachable.request)
    from reachable_alerts_fresh [OF this that] show ?thesis
      by (simp add: fresh_alert_def)
  qed
  then show ?thesis
    by (auto simp add: after_one_stores alert1_def)
qed

text \<open>
  C4, amended: no request resolves an alert. Every request leaves each stored alert as
  it was, its \<open>escalationLevel\<close> included (the identifier the request draws being
  unused), and an alert that after a request is resolved, has a \<open>resolvedAt\<close>, has
  resolution notes or has an escalation level other than 1 was stored so before it.
\<close>

theorem no_request_resolves:
  "(alert_uuid_fresh r s \<longrightarrow> alertStorage s k = Some a \<longrightarrow> alertStorage (step r s) k = Some a)
   \<and> (alertStorage (step r s) k = Some a'
        \<and> (resolved a' \<or> resolvedAt a' \<noteq> None \<or> resolutionNotes a' \<noteq> None
            \<or> escalationLevel a' \<noteq> 1)
        \<longrightarrow> alertStorage s k = Some a')"
  using step_keeps_alert [of r s k a] step_new_alert [of r s k a']
  by (auto simp add: fresh_alert_def)

theorem no_request_resolves_witness:
  "alert_uuid_fresh (PostHealthMetrics env2 high_reading) after_one
   \<and> alertStorage after_one (utf16 ''a1'') = Some alert1
   \<and> alertStorage (step (PostHealthMetrics env2 high_reading) after_one) (utf16 ''a1'')
       = Some alert1
   \<and> alertStorage (step GetMaternalProfiles resolved_store) (utf16 ''a1'')
       = Some (alert1\<lparr>resolved := True, resolvedAt := Some 1700000000000000002\<rparr>)
   \<and> resolved (alert1\<lparr>resolved := True, resolvedAt := Some 1700000000000000002\<rparr>)
   \<and> alertStorage resolved_store (utf16 ''a1'')
       = Some (alert1\<lparr>resolved := True, resolvedAt := Some 1700000000000000002\<rparr>)"
proof -
  have fresh: "alert_uuid_fresh (PostHealthMetrics env2 high_reading) after_one"
    using ids_distinct by (simp add: after_one_stores env_uuids)
  show ?thesis
    using no_request_resolves [where r = "PostHealthMetrics env2 high_reading"
        and s = after_one and k = "utf16 ''a1''" and a = alert1]
      no_request_resolves [where r = GetMaternalProfiles and s = resolved_store
        and k = "utf16 ''a1''"
        and a' = "alert1\<lparr>resolved := True, resolvedAt := Some 1700000000000000002\<rparr>"]
      fresh ids_distinct
    by (simp add: after_one_stores resolved_store_def env_uuids step.simps(3)
        del: step.simps)
qed

subsection \<open>Serialization\<close>

lemma instant_toISOString_malformed:
  "malformed t \<Longrightarrow> instant_toISOString t = Inl RangeError"
  by (simp add: malformed_def instant_toISOString_def date_toISOString_def)

lemma malformed_nonzero: "malformed t \<Longrightarrow> t \<noteq> 0"
  by (auto simp add: malformed_def bigint_div_def)

lemma postHealthMetrics_malformed:
  assumes "req_maternalProfileId body = Some pid"
    and "maternalProfileStorage s pid = Some profile"
    and "validateHealthMetrics body = None"
    and "malformed (time1 e)"
  shows "fst (postHealthMetrics e body s) = Failure 500 ''Failed to record health metrics''"
proof -
  have "recordedAt (newMetrics e body) = time1 e"
    by (simp add: newMetrics_def)
  then have "serializeMetrics (newMetrics e body) = Inl (Error ''Failed to serialize metrics data'')"
    "serializeMetrics ((newMetrics e body)\<lparr>isFlaggedForReview := True\<rparr>)
       = Inl (Error ''Failed to serialize metrics data'')"
    using assms(4) by (simp_all add: serializeMetrics_def instant_toISOString_malformed)
  then show ?thesis
    using assms(1-3) by (simp add: postHealthMetrics_def Let_def)
qed

text \<open>
  C7, as stated: for every entity type (profile, metrics, visit, alert), serializing an
  entity with a malformed instant raises nothing and puts a sentinel in place of the
  instant. \<open>serializeMetrics\<close> on a snapshot whose \<open>recordedAt\<close> is out of range raises
  the error \<open>Failed to serialize metrics data\<close>.
\<close>

theorem serializeMetrics_malformed_counterexample:
  "malformed (recordedAt ((snapshot 150 80 100 12)\<lparr>recordedAt := 10000000000000000000000\<rparr>))
   \<and> serializeMetrics ((snapshot 150 80 100 12)\<lparr>recordedAt := 10000000000000000000000\<rparr>)
       = Inl (Error ''Failed to serialize metrics data'')"
  by (simp add: malformed_def serializeMetrics_def instant_toISOString_def date_toISOString_def
      bigint_div_def NANOS_PER_MILLISECOND_def snapshot_def)

text \<open>
  C7, amended: \<open>serializeProfile\<close> raises nothing; when an instant of the profile is
  malformed its result carries the sentinel \<open>Invalid Date\<close> in place of all three
  instants. \<open>serializeMetrics\<close>, \<open>serializeVisit\<close> and \<open>serializeAlert\<close> on an entity
  with a malformed instant raise an error (\<open>Failed to serialize ... data\<close>) to their
  caller; \<open>POST /health-metrics\<close>, the one caller, catches it and answers an accepted
  request with status 500.
\<close>

theorem serialize_malformed:
  "(malformed (dueDate profile) \<or> malformed (profile_createdAt profile)
      \<or> malformed (profile_lastUpdated profile) \<longrightarrow>
      serializeProfile profile =
        \<lparr>sp_profile = profile, sp_dueDate = Invalid_Date, sp_createdAt = Invalid_Date,
         sp_lastUpdated = Invalid_Date\<rparr>)
   \<and> (malformed (recordedAt metrics) \<longrightarrow>
        serializeMetrics metrics = Inl (Error ''Failed to serialize metrics data''))
   \<and> (malformed (scheduledDate visit) \<or> (\<exists>n. nextVisitDate visit = Some n \<and> malformed n) \<longrightarrow>
        serializeVisit visit = Inl (Error ''Failed to serialize visit data''))
   \<and> (malformed (alert_createdAt alert) \<or> (\<exists>r. resolvedAt alert = Some r \<and> malformed r) \<longrightarrow>
        serializeAlert alert = Inl (Error ''Failed to serialize alert data''))
   \<and> (req_maternalProfileId body = Some pid \<and> maternalProfileStorage s pid = Some owner
        \<and> validateHealthMetrics body = None \<and> malformed (time1 e) \<longrightarrow>
        fst (postHealthMetrics e body s) = Failure 500 ''Failed to record health metrics'')"
  using postHealthMetrics_malformed [of body pid s owner e]
  by (auto simp add: serializeProfile_def serializeMetrics_def serializeVisit_def
      serializeAlert_def instant_toISOString_malformed malformed_nonzero
      split: sum.splits option.splits)

theorem serialize_malformed_witness:
  "malformed (dueDate (profile1\<lparr>dueDate := 10000000000000000000000\<rparr>))
   \<and> sp_dueDate (serializeProfile (profile1\<lparr>dueDate := 10000000000000000000000\<rparr>)) = Invalid_Date
   \<and> sp_createdAt (serializeProfile (profile1\<lparr>dueDate := 10000000000000000000000\<rparr>)) = Invalid_Date
   \<and> sp_createdAt (serializeProfile profile1) = ISO 1700000000000
   \<and> malformed (recordedAt ((snapshot 150 80 100 12)\<lparr>recordedAt := - 10000000000000000000000\<rparr>))
   \<and> serializeMetrics ((snapshot 150 80 100 12)\<lparr>recordedAt := - 10000000000000000000000\<rparr>)
       = Inl (Error ''Failed to serialize metrics data'')
   \<and> malformed (scheduledDate visit1)
   \<and> serializeVisit visit1 = Inl (Error ''Failed to serialize visit data'')
   \<and> resolvedAt (alert1\<lparr>resolvedAt := Some 10000000000000000000000\<rparr>)
       = Some 10000000000000000000000
   \<and> malformed 10000000000000000000000
   \<and> serializeAlert (alert1\<lparr>resolvedAt := Some 10000000000000000000000\<rparr>)
       = Inl (Error ''Failed to serialize alert data'')
   \<and> req_maternalProfileId high_reading = Some (utf16 ''p1'')
   \<and> maternalProfileStorage clinic (utf16 ''p1'') = Some profile1
   \<and> validateHealthMetrics high_reading = None
   \<and> malformed (time1 (env1\<lparr>time1 := 10000000000000000000000\<rparr>))
   \<and> fst (postHealthMetrics (env1\<lparr>time1 := 10000000000000000000000\<rparr>) high_reading clinic)
       = Failure 500 ''Failed to record health metrics''"
  using serialize_malformed [where profile = "profile1\<lparr>dueDate := 10000000000000000000000\<rparr>"
      and metrics = "(snapshot 150 80 100 12)\<lparr>recordedAt := - 10000000000000000000000\<rparr>"
      and visit = visit1 and alert = "alert1\<lparr>resolvedAt := Some 10000000000000000000000\<rparr>"
      and body = high_reading and pid = "utf16 ''p1''" and s = clinic and owner = profile1
      and e = "env1\<lparr>time1 := 10000000000000000000000\<rparr>"]
    high_reading_accepted(1,2) clinic_stores(1)
  by (simp add: malformed_def bigint_div_def NANOS_PER_MILLISECOND_def profile1_def visit1_def
      alert1_def snapshot_def serializeProfile_def instant_toISOString_def date_toISOString_def)

end
